theory Spec2Isabelle
  imports Main
begin

section \<open>Strings\<close>

text \<open>
  JavaScript strings are modelled as \<^typ>\<open>string\<close> (lists of 8-bit characters), which
  covers ASCII text.  The helpers are the built-in string methods that the source
  calls: \<^verbatim>\<open>toLowerCase\<close>, \<^verbatim>\<open>startsWith\<close>, \<^verbatim>\<open>includes\<close> (here \<open>includes_str\<close>)
  and, further down, \<^verbatim>\<open>trim\<close>.  In \<open>startsWith s p\<close> and \<open>includes_str s p\<close> the text
  searched is \<open>s\<close>.
\<close>

definition upper_letters :: string where
  "upper_letters = ''ABCDEFGHIJKLMNOPQRSTUVWXYZ''"

definition lower_letters :: string where
  "lower_letters = ''abcdefghijklmnopqrstuvwxyz''"

definition lower_char :: "char \<Rightarrow> char" where
  "lower_char c = (case map_of (zip upper_letters lower_letters) c of Some d \<Rightarrow> d | None \<Rightarrow> c)"

definition toLowerCase :: "string \<Rightarrow> string" where
  "toLowerCase s = map lower_char s"

fun startsWith :: "string \<Rightarrow> string \<Rightarrow> bool" where
  "startsWith s [] = True"
| "startsWith [] (p # ps) = False"
| "startsWith (c # cs) (p # ps) = (if c = p then startsWith cs ps else False)"

fun includes_str :: "string \<Rightarrow> string \<Rightarrow> bool" where
  "includes_str [] sub = (sub = [])"
| "includes_str (c # cs) sub = (if startsWith (c # cs) sub then True else includes_str cs sub)"

text \<open>The regular expression \<^verbatim>\<open>/remind.*to/\<close>: the dot matches every character
  except a line terminator, and the search may start anywhere in the text.\<close>

definition lineTerminator :: "char \<Rightarrow> bool" where
  "lineTerminator c = (c = CHR 0x0A \<or> c = CHR 0x0D)"

fun dot_star_then :: "string \<Rightarrow> string \<Rightarrow> bool" where
  "dot_star_then lit [] = (lit = [])"
| "dot_star_then lit (c # cs) =
     (if startsWith (c # cs) lit then True
      else if lineTerminator c then False
      else dot_star_then lit cs)"

fun remind_to_at :: "string \<Rightarrow> bool" where
  "remind_to_at s = (if startsWith s ''remind'' then dot_star_then ''to'' (drop 6 s) else False)"

fun remind_to_test :: "string \<Rightarrow> bool" where
  "remind_to_test [] = False"
| "remind_to_test (c # cs) = (if remind_to_at (c # cs) then True else remind_to_test cs)"

section \<open>Intent classification (\<^verbatim>\<open>MessageHandler.detectIntent\<close>)\<close>

datatype intent = image_generation | reminder_setting | question | greeting | chat_intent

definition image_cue :: "string \<Rightarrow> bool" where
  "image_cue lowerMessage =
     (includes_str lowerMessage ''generate image'' \<or>
      includes_str lowerMessage ''create image'' \<or>
      includes_str lowerMessage ''draw'' \<or>
      includes_str lowerMessage ''picture'' \<or>
      includes_str lowerMessage ''image of'')"

definition reminder_cue :: "string \<Rightarrow> bool" where
  "reminder_cue lowerMessage =
     (includes_str lowerMessage ''remind me'' \<or>
      includes_str lowerMessage ''reminder'' \<or>
      includes_str lowerMessage ''schedule'' \<or>
      remind_to_test lowerMessage)"

definition question_cue :: "string \<Rightarrow> bool" where
  "question_cue lowerMessage =
     (startsWith lowerMessage ''what'' \<or>
      startsWith lowerMessage ''how'' \<or>
      startsWith lowerMessage ''why'' \<or>
      startsWith lowerMessage ''when'' \<or>
      startsWith lowerMessage ''where'' \<or>
      includes_str lowerMessage ''?'')"

definition greeting_cue :: "string \<Rightarrow> bool" where
  "greeting_cue lowerMessage =
     (includes_str lowerMessage ''hello'' \<or>
      includes_str lowerMessage ''hi'' \<or>
      includes_str lowerMessage ''hey'' \<or>
      includes_str lowerMessage ''good morning'' \<or>
      includes_str lowerMessage ''good afternoon'' \<or>
      includes_str lowerMessage ''good evening'')"

definition detectIntent :: "string \<Rightarrow> intent" where
  "detectIntent message =
     (let lowerMessage = toLowerCase message in
      if image_cue lowerMessage then image_generation
      else if reminder_cue lowerMessage then reminder_setting
      else if question_cue lowerMessage then question
      else if greeting_cue lowerMessage then greeting
      else chat_intent)"

section \<open>Time\<close>

text \<open>
  An instant is the number of milliseconds since the epoch, the value that
  \<^verbatim>\<open>moment(...).valueOf()\<close> returns and that an ISO string written by
  \<^verbatim>\<open>toISOString()\<close> denotes.  A moment that \<^verbatim>\<open>isValid()\<close> rejects is \<open>None\<close>.
  The calendar operations of the moment library work in the local time of the process;
  the model takes that zone to be UTC (a fixed offset, no daylight saving), so a day is
  always 86400000 ms.
\<close>

type_synonym moment = "int option"

datatype time_unit = minute | hour | day | week | month

definition isBefore :: "int \<Rightarrow> int \<Rightarrow> bool" where
  "isBefore a b = (a < b)"

definition isSameOrAfter :: "int \<Rightarrow> int \<Rightarrow> bool" where
  "isSameOrAfter a b = (b \<le> a)"

text \<open>\<^verbatim>\<open>a.diff(b, 'minutes')\<close>: the difference in minutes, rounded towards zero.\<close>

definition diff_minutes :: "int \<Rightarrow> int \<Rightarrow> int" where
  "diff_minutes a b = (if b \<le> a then (a - b) div 60000 else - ((b - a) div 60000))"

definition isLeapYear :: "int \<Rightarrow> bool" where
  "isLeapYear y = (if y mod 400 = 0 then True else if y mod 100 = 0 then False else y mod 4 = 0)"

definition daysInMonth :: "int \<Rightarrow> int \<Rightarrow> int" where
  "daysInMonth y m =
     (if m = 2 then (if isLeapYear y then 29 else 28)
      else if m = 4 \<or> m = 6 \<or> m = 9 \<or> m = 11 then 30 else 31)"

text \<open>Day number (days since 1970-01-01) of a date of the proleptic Gregorian calendar,
  months counted from 1, and its inverse.\<close>

definition days_from_civil :: "int \<Rightarrow> int \<Rightarrow> int \<Rightarrow> int" where
  "days_from_civil y m d =
     (let y1 = (if m \<le> 2 then y - 1 else y);
          era = y1 div 400;
          yoe = y1 - era * 400;
          mp = (if 2 < m then m - 3 else m + 9);
          doy = (153 * mp + 2) div 5 + d - 1;
          doe = yoe * 365 + yoe div 4 - yoe div 100 + doy
      in era * 146097 + doe - 719468)"

definition civil_from_days :: "int \<Rightarrow> int \<times> int \<times> int" where
  "civil_from_days z =
     (let z1 = z + 719468;
          era = z1 div 146097;
          doe = z1 - era * 146097;
          yoe = (doe - doe div 1460 + doe div 36524 - doe div 146096) div 365;
          doy = doe - (365 * yoe + yoe div 4 - yoe div 100);
          mp = (5 * doy + 2) div 153;
          d = doy - (153 * mp + 2) div 5 + 1;
          m = (if mp < 10 then mp + 3 else mp - 9);
          y = yoe + era * 400
      in (if m \<le> 2 then y + 1 else y, m, d))"

text \<open>The instant of a calendar date and time of day.\<close>

definition civil :: "int \<Rightarrow> int \<Rightarrow> int \<Rightarrow> int \<Rightarrow> int \<Rightarrow> int" where
  "civil y m d h mi = days_from_civil y m d * 86400000 + h * 3600000 + mi * 60000"

text \<open>\<^verbatim>\<open>moment([year, month, day])\<close> with a month index counted from 0: invalid when
  the month or the day of the month is out of range.\<close>

definition moment_of_array :: "int \<Rightarrow> int \<Rightarrow> int \<Rightarrow> moment" where
  "moment_of_array y month_index d =
     (if month_index < 0 \<or> 11 < month_index then None
      else if d < 1 \<or> daysInMonth y (month_index + 1) < d then None
      else Some (days_from_civil y (month_index + 1) d * 86400000))"

text \<open>\<^verbatim>\<open>m.add(n, 'month')\<close> moves to the same day of the month \<open>n\<close> months later,
  clamped to the length of that month, and keeps the time of day.\<close>

definition add_months :: "int \<Rightarrow> int \<Rightarrow> int" where
  "add_months n t =
     (case civil_from_days (t div 86400000) of (y, m, d) \<Rightarrow>
        let mi = y * 12 + (m - 1) + n;
            y1 = mi div 12;
            m1 = mi mod 12 + 1;
            d1 = min d (daysInMonth y1 m1)
        in days_from_civil y1 m1 d1 * 86400000 + t mod 86400000)"

fun moment_add :: "int \<Rightarrow> time_unit \<Rightarrow> int \<Rightarrow> int" where
  "moment_add n minute t = t + n * 60000"
| "moment_add n hour t = t + n * 3600000"
| "moment_add n day t = t + n * 86400000"
| "moment_add n week t = t + n * 604800000"
| "moment_add n month t = add_months n t"

text \<open>The setters \<^verbatim>\<open>hour(h)\<close>, \<^verbatim>\<open>minute(m)\<close> and \<^verbatim>\<open>second(s)\<close> replace one field of
  the time of day; a value beyond the field's range carries into the next field, as
  \<^verbatim>\<open>Date.prototype.setHours\<close> does.\<close>

definition set_hour :: "int \<Rightarrow> int \<Rightarrow> int" where
  "set_hour h t = t + (h - (t div 3600000) mod 24) * 3600000"

definition set_minute :: "int \<Rightarrow> int \<Rightarrow> int" where
  "set_minute m t = t + (m - (t div 60000) mod 60) * 60000"

definition set_second :: "int \<Rightarrow> int \<Rightarrow> int" where
  "set_second s t = t + (s - (t div 1000) mod 60) * 1000"

text \<open>A \<^verbatim>\<open>Date\<close> holds an instant of at most 8.64e15 ms before or after the epoch;
  arithmetic that leaves this range yields an invalid moment.\<close>

definition time_clip :: "int \<Rightarrow> moment" where
  "time_clip t = (if \<bar>t\<bar> \<le> 8640000000000000 then Some t else None)"

section \<open>The reminder store (\<^verbatim>\<open>ReminderService\<close>)\<close>

datatype status = Active | Sent | Cancelled | Failed

text \<open>The value of \<^verbatim>\<open>recurrence_type\<close>: \<open>None\<close> is \<^verbatim>\<open>null\<close>; \<open>OtherType\<close> is any
  other truthy value.\<close>

datatype recurrence = Daily | Weekly | Monthly | OtherType

record reminder =
  reminderId :: string
  phone :: string
  message :: string
  datetime :: int
  timezone :: string
  recurring :: bool
  recurrence_type :: "recurrence option"
  priority :: string
  status :: status
  created_at :: int
  sent :: bool
  sent_at :: "int option"
  error :: "string option"
  updated_at :: "int option"

datatype err = InvalidDateTimeFormat | ReminderTimeInPast | ReminderNotFound

text \<open>\<^verbatim>\<open>this.reminders\<close> is a JavaScript \<^verbatim>\<open>Map\<close> from phone to an array of reminders.
  It is an association list in insertion order, the order in which the dispatcher
  iterates over it.\<close>

type_synonym reminders = "(string \<times> reminder list) list"

fun map_set :: "reminders \<Rightarrow> string \<Rightarrow> reminder list \<Rightarrow> reminders" where
  "map_set [] k v = [(k, v)]"
| "map_set ((k1, v1) # kvs) k v = (if k1 = k then (k, v) # kvs else (k1, v1) # map_set kvs k v)"

text \<open>\<^verbatim>\<open>this.reminders.get(k).push(r)\<close>; on a missing key the source raises a
  \<^verbatim>\<open>TypeError\<close>, which its caller catches, and nothing is stored.\<close>

definition push_to :: "reminders \<Rightarrow> string \<Rightarrow> reminder \<Rightarrow> reminders" where
  "push_to rems k r = (case map_of rems k of None \<Rightarrow> rems | Some rs \<Rightarrow> map_set rems k (rs @ [r]))"

definition get_or_empty :: "reminders \<Rightarrow> string \<Rightarrow> reminder list" where
  "get_or_empty rems k = (case map_of rems k of None \<Rightarrow> [] | Some rs \<Rightarrow> rs)"

fun findIndex :: "('a \<Rightarrow> bool) \<Rightarrow> 'a list \<Rightarrow> nat option" where
  "findIndex P [] = None"
| "findIndex P (x # xs) = (if P x then Some 0 else map_option Suc (findIndex P xs))"

record reminder_options =
  opt_timezone :: string
  opt_recurring :: bool
  opt_recurrence_type :: "recurrence option"
  opt_priority :: string

definition default_options :: reminder_options where
  "default_options =
     \<lparr>opt_timezone = ''UTC'', opt_recurring = False, opt_recurrence_type = None,
      opt_priority = ''normal''\<rparr>"

text \<open>\<^verbatim>\<open>setReminder(phone, message, datetime, options)\<close>.  \<open>now\<close> is the reading of the
  clock, \<open>uuid\<close> the identifier that \<^verbatim>\<open>uuidv4()\<close> returns and \<open>reminderTime\<close> the moment
  that \<^verbatim>\<open>moment(datetime)\<close> builds.  The result is the returned reminder or the error
  raised, together with the store after the call.\<close>

definition setReminder ::
  "reminders \<Rightarrow> int \<Rightarrow> string \<Rightarrow> string \<Rightarrow> string \<Rightarrow> moment \<Rightarrow> reminder_options
     \<Rightarrow> (err + reminder) \<times> reminders" where
  "setReminder rems now uuid ph msg reminderTime opts =
     (case reminderTime of
        None \<Rightarrow> (Inl InvalidDateTimeFormat, rems)
      | Some t \<Rightarrow>
          if isBefore t now then (Inl ReminderTimeInPast, rems)
          else
            let r = \<lparr>reminderId = uuid, phone = ph, message = msg, datetime = t,
                     timezone = opt_timezone opts, recurring = opt_recurring opts,
                     recurrence_type = opt_recurrence_type opts, priority = opt_priority opts,
                     status = Active, created_at = now, sent = False, sent_at = None,
                     error = None, updated_at = None\<rparr>;
                rems1 = (if map_of rems ph = None then map_set rems ph [] else rems)
            in (Inr r, push_to rems1 ph r))"

datatype sort_field = by_datetime | by_created_at

text \<open>The options of \<^verbatim>\<open>getUserReminders\<close>; the status \<open>None\<close> is \<^verbatim>\<open>'all'\<close>.\<close>

record list_options =
  status_filter :: "status option"
  limit :: int
  sort_by :: sort_field

definition default_list_options :: list_options where
  "default_list_options = \<lparr>status_filter = None, limit = 50, sort_by = by_datetime\<rparr>"

definition sort_value :: "sort_field \<Rightarrow> reminder \<Rightarrow> int" where
  "sort_value f = (case f of by_datetime \<Rightarrow> datetime | by_created_at \<Rightarrow> created_at)"

definition apply_limit :: "int \<Rightarrow> reminder list \<Rightarrow> reminder list" where
  "apply_limit l rs = (if 0 < l then take (nat l) rs else rs)"

text \<open>\<^verbatim>\<open>getUserReminders(phone, options)\<close>.  \<^verbatim>\<open>Array.prototype.sort\<close> is stable and sorts
  in place: with status \<^verbatim>\<open>'all'\<close> the array sorted is the stored one, otherwise it is
  the fresh array that \<^verbatim>\<open>filter\<close> built.\<close>

definition getUserReminders ::
  "reminders \<Rightarrow> string \<Rightarrow> list_options \<Rightarrow> reminder list \<times> reminders" where
  "getUserReminders rems ph opts =
     (let userReminders = get_or_empty rems ph in
      case status_filter opts of
        None \<Rightarrow>
          (let sorted = sort_key (sort_value (sort_by opts)) userReminders;
               rems1 = (if map_of rems ph = None then rems else map_set rems ph sorted)
           in (apply_limit (limit opts) sorted, rems1))
      | Some s \<Rightarrow>
          (apply_limit (limit opts)
             (sort_key (sort_value (sort_by opts)) (filter (\<lambda>r. status r = s) userReminders)),
           rems))"

definition cancelReminder ::
  "reminders \<Rightarrow> string \<Rightarrow> string \<Rightarrow> (err + reminder) \<times> reminders" where
  "cancelReminder rems ph rid =
     (let userReminders = get_or_empty rems ph in
      case findIndex (\<lambda>r. reminderId r = rid) userReminders of
        None \<Rightarrow> (Inl ReminderNotFound, rems)
      | Some reminderIndex \<Rightarrow>
          let r = (userReminders ! reminderIndex)\<lparr>status := Cancelled\<rparr>
          in (Inr r, map_set rems ph (userReminders[reminderIndex := r])))"

text \<open>The patch of \<^verbatim>\<open>updateReminder\<close>: \<open>None\<close> is a property the patch does not
  carry.  The source tests the datetime of the patch for truthiness before it validates
  it.  A datetime is either truthy, with the moment that \<^verbatim>\<open>moment(value)\<close> builds of
  it (\<open>None\<close> when it cannot be parsed), or the number 0, which is falsy and denotes
  the epoch.  The other falsy values (the empty string, \<^verbatim>\<open>null\<close>, \<^verbatim>\<open>NaN\<close>,
  \<^verbatim>\<open>false\<close>) are no dates: assigned to a reminder they would leave a datetime that
  is not an instant, which the record \<^typ>\<open>reminder\<close> does not represent, so the
  type of the patch leaves them out.\<close>

datatype patch_datetime = NumberZero | Truthy moment

record reminder_updates =
  upd_id :: "string option"
  upd_phone :: "string option"
  upd_message :: "string option"
  upd_datetime :: "patch_datetime option"
  upd_timezone :: "string option"
  upd_recurring :: "bool option"
  upd_recurrence_type :: "recurrence option option"
  upd_priority :: "string option"
  upd_status :: "status option"
  upd_created_at :: "int option"
  upd_sent :: "bool option"
  upd_sent_at :: "int option option"
  upd_error :: "string option option"
  upd_updated_at :: "int option option"

definition no_updates :: reminder_updates where
  "no_updates =
     \<lparr>upd_id = None, upd_phone = None, upd_message = None, upd_datetime = None,
      upd_timezone = None, upd_recurring = None, upd_recurrence_type = None,
      upd_priority = None, upd_status = None, upd_created_at = None, upd_sent = None,
      upd_sent_at = None, upd_error = None, upd_updated_at = None\<rparr>"

definition patched :: "'a option \<Rightarrow> 'a \<Rightarrow> 'a" where
  "patched u old = (case u of None \<Rightarrow> old | Some v \<Rightarrow> v)"

text \<open>\<^verbatim>\<open>Object.assign(reminder, updates)\<close>; \<open>newTime\<close> is the instant that the
  datetime of the patch denotes when the assignment runs (\<open>None\<close> when the patch
  carries none).\<close>

definition assign :: "reminder \<Rightarrow> reminder_updates \<Rightarrow> int option \<Rightarrow> reminder" where
  "assign r u newTime =
     \<lparr>reminderId = patched (upd_id u) (reminderId r),
      phone = patched (upd_phone u) (phone r),
      message = patched (upd_message u) (message r),
      datetime = patched newTime (datetime r),
      timezone = patched (upd_timezone u) (timezone r),
      recurring = patched (upd_recurring u) (recurring r),
      recurrence_type = patched (upd_recurrence_type u) (recurrence_type r),
      priority = patched (upd_priority u) (priority r),
      status = patched (upd_status u) (status r),
      created_at = patched (upd_created_at u) (created_at r),
      sent = patched (upd_sent u) (sent r),
      sent_at = patched (upd_sent_at u) (sent_at r),
      error = patched (upd_error u) (error r),
      updated_at = patched (upd_updated_at u) (updated_at r)\<rparr>"

text \<open>The guard \<^verbatim>\<open>if (updates.datetime)\<close> and the validation under it: the error
  raised, or the instant that \<^verbatim>\<open>Object.assign\<close> will write (\<open>None\<close> when the patch
  carries no datetime).  A truthy datetime is validated and replaced by its ISO
  string; the falsy 0 skips the validation and is written as it is.\<close>

definition validate_updates :: "int \<Rightarrow> reminder_updates \<Rightarrow> err + int option" where
  "validate_updates now u =
     (case upd_datetime u of
        Some (Truthy newTime) \<Rightarrow>
          (case newTime of
             None \<Rightarrow> Inl InvalidDateTimeFormat
           | Some t \<Rightarrow> if isBefore t now then Inl ReminderTimeInPast else Inr (Some t))
      | Some NumberZero \<Rightarrow> Inr (Some 0)
      | None \<Rightarrow> Inr None)"

definition updateReminder ::
  "reminders \<Rightarrow> int \<Rightarrow> string \<Rightarrow> string \<Rightarrow> reminder_updates \<Rightarrow> (err + reminder) \<times> reminders" where
  "updateReminder rems now ph rid updates =
     (let userReminders = get_or_empty rems ph in
      case findIndex (\<lambda>r. reminderId r = rid) userReminders of
        None \<Rightarrow> (Inl ReminderNotFound, rems)
      | Some reminderIndex \<Rightarrow>
          (case validate_updates now updates of
             Inl e \<Rightarrow> (Inl e, rems)
           | Inr newTime \<Rightarrow>
               let r = (assign (userReminders ! reminderIndex) updates newTime)
                         \<lparr>updated_at := Some now\<rparr>
               in (Inr r, map_set rems ph (userReminders[reminderIndex := r]))))"

section \<open>The dispatcher (\<^verbatim>\<open>checkReminders\<close>, \<^verbatim>\<open>sendReminder\<close>)\<close>

text \<open>
  \<^verbatim>\<open>whatsappService.sendMessage\<close> is an external call.  Its outcome is given by an
  oracle that may depend on how many sends the tick has attempted before, on the
  recipient and on the message: it delivers, or throws an error with a message.
  \<^verbatim>\<open>uuidv4()\<close> is an oracle of the same kind.
\<close>

datatype send_result = Delivered | Throws string

type_synonym whatsapp = "nat \<Rightarrow> string \<Rightarrow> string \<Rightarrow> send_result"

text \<open>\<^verbatim>\<open>scheduleNextRecurrence(reminder)\<close>: an unknown recurrence type raises an error
  that the function itself catches.\<close>

definition scheduleNextRecurrence :: "reminders \<Rightarrow> int \<Rightarrow> string \<Rightarrow> reminder \<Rightarrow> reminders" where
  "scheduleNextRecurrence rems now uuid r =
     (let nextTime =
            (case recurrence_type r of
               Some Daily \<Rightarrow> Some (moment_add 1 day (datetime r))
             | Some Weekly \<Rightarrow> Some (moment_add 1 week (datetime r))
             | Some Monthly \<Rightarrow> Some (moment_add 1 month (datetime r))
             | _ \<Rightarrow> None)
      in case nextTime of
           None \<Rightarrow> rems
         | Some t \<Rightarrow>
             push_to rems (phone r)
               (r\<lparr>reminderId := uuid, datetime := t, sent := False, status := Active,
                   created_at := now\<rparr>))"

text \<open>A reminder object is a slot of the store: the array of \<open>key\<close>, position \<open>i\<close>.\<close>

definition set_slot :: "reminders \<Rightarrow> string \<Rightarrow> nat \<Rightarrow> reminder \<Rightarrow> reminders" where
  "set_slot rems key i r =
     (case map_of rems key of None \<Rightarrow> rems | Some rs \<Rightarrow> map_set rems key (rs[i := r]))"

text \<open>\<^verbatim>\<open>sendReminder(reminder)\<close> for the reminder in slot \<open>(key, i)\<close>; \<open>n\<close> is the number
  of sends attempted before, \<open>svc\<close> the injected service (\<open>None\<close> is \<^verbatim>\<open>null\<close>).  The
  function catches every error and returns nothing; the result is the store after it.\<close>

definition sendReminder ::
  "reminders \<Rightarrow> int \<Rightarrow> whatsapp option \<Rightarrow> (nat \<Rightarrow> string) \<Rightarrow> nat \<Rightarrow> string \<Rightarrow> nat \<Rightarrow> reminders" where
  "sendReminder rems now svc uuidv4 n key i =
     (let userReminders = get_or_empty rems key in
      if length userReminders \<le> i then rems
      else
        let r = userReminders ! i in
        case svc of
          None \<Rightarrow>
            set_slot rems key i
              (r\<lparr>status := Failed, error := Some ''WhatsApp service not available''\<rparr>)
        | Some sendMessage \<Rightarrow>
            (case sendMessage n (phone r) (message r) of
               Throws e \<Rightarrow> set_slot rems key i (r\<lparr>status := Failed, error := Some e\<rparr>)
             | Delivered \<Rightarrow>
                 let r1 = r\<lparr>sent := True, sent_at := Some now\<rparr>;
                     rems1 = set_slot rems key i r1
                 in if recurring r1 \<and> recurrence_type r1 \<noteq> None
                    then scheduleNextRecurrence rems1 now (uuidv4 n) r1
                    else set_slot rems1 key i (r1\<lparr>status := Sent\<rparr>)))"

text \<open>The test of \<^verbatim>\<open>checkReminders\<close> on one reminder.\<close>

definition is_due :: "int \<Rightarrow> reminder \<Rightarrow> bool" where
  "is_due now r =
     (status r = Active \<and> \<not> sent r \<and>
      isSameOrAfter now (datetime r) \<and> diff_minutes now (datetime r) \<le> 1)"

text \<open>
  The inner loop, \<^verbatim>\<open>for (const reminder of userReminders)\<close>: the array iterator reads
  the array at each step, so it also visits the successors that \<^verbatim>\<open>sendReminder\<close>
  pushes during the loop.  The state is the store and \<^verbatim>\<open>sentCount\<close>.  The outer loop
  runs over the entries of the map, whose keys do not change in a tick.  A loop that
  does not end has the value \<open>None\<close>.
\<close>

partial_function (option) scan_user ::
  "int \<Rightarrow> whatsapp option \<Rightarrow> (nat \<Rightarrow> string) \<Rightarrow> string \<Rightarrow> nat \<Rightarrow> reminders \<times> nat
     \<Rightarrow> (reminders \<times> nat) option" where
  "scan_user now svc uuidv4 key i s =
     (if i < length (get_or_empty (fst s) key) then
        (if is_due now (get_or_empty (fst s) key ! i)
         then scan_user now svc uuidv4 key (i + 1)
                (sendReminder (fst s) now svc uuidv4 (snd s) key i, snd s + 1)
         else scan_user now svc uuidv4 key (i + 1) s)
      else Some s)"

partial_function (option) scan_store ::
  "int \<Rightarrow> whatsapp option \<Rightarrow> (nat \<Rightarrow> string) \<Rightarrow> nat \<Rightarrow> reminders \<times> nat
     \<Rightarrow> (reminders \<times> nat) option" where
  "scan_store now svc uuidv4 k s =
     (if k < length (fst s) then
        (case scan_user now svc uuidv4 (fst (fst s ! k)) 0 s of
           None \<Rightarrow> None
         | Some s1 \<Rightarrow> scan_store now svc uuidv4 (k + 1) s1)
      else Some s)"

declare scan_user.simps [code]

declare scan_store.simps [code]

text \<open>\<^verbatim>\<open>checkReminders()\<close>: the count returned and the store after the tick.\<close>

definition checkReminders ::
  "reminders \<Rightarrow> int \<Rightarrow> whatsapp option \<Rightarrow> (nat \<Rightarrow> string) \<Rightarrow> (nat \<times> reminders) option" where
  "checkReminders rems now svc uuidv4 =
     map_option (\<lambda>s. (snd s, fst s)) (scan_store now svc uuidv4 0 (rems, 0))"

section \<open>The cancel command (\<^verbatim>\<open>MessageHandler.handleCancelReminderCommand\<close>)\<close>

definition is_space :: "char \<Rightarrow> bool" where
  "is_space c = (c \<in> set [CHR 0x20, CHR 0x09, CHR 0x0A, CHR 0x0B, CHR 0x0C, CHR 0x0D])"

definition trim :: "string \<Rightarrow> string" where
  "trim s = rev (dropWhile is_space (rev (dropWhile is_space s)))"

text \<open>The reply that the handler sends to the user.\<close>

datatype cancel_reply =
    ProvideReminderId
  | ReminderNotFoundReply
  | ReminderCancelled reminder
  | CouldNotCancel

definition handleCancelReminderCommand ::
  "reminders \<Rightarrow> string \<Rightarrow> string \<Rightarrow> cancel_reply \<times> reminders" where
  "handleCancelReminderCommand rems ph args =
     (if trim args = [] then (ProvideReminderId, rems)
      else
        case getUserReminders rems ph (default_list_options\<lparr>status_filter := Some Active\<rparr>) of
          (userReminders, rems1) \<Rightarrow>
            (case find (\<lambda>r. startsWith (reminderId r) (trim args)) userReminders of
               None \<Rightarrow> (ReminderNotFoundReply, rems1)
             | Some r \<Rightarrow>
                 (case cancelReminder rems1 ph (reminderId r) of
                    (Inl e, rems2) \<Rightarrow> (CouldNotCancel, rems2)
                  | (Inr c, rems2) \<Rightarrow> (ReminderCancelled r, rems2))))"

section \<open>The time parser (\<^verbatim>\<open>parseNaturalLanguageTime\<close>)\<close>

definition is_digit :: "char \<Rightarrow> bool" where
  "is_digit c = (c \<in> set ''0123456789'')"

definition digit_value :: "char \<Rightarrow> int" where
  "digit_value c = (case map_of (zip ''0123456789'' [0, 1, 2, 3, 4, 5, 6, 7, 8, 9]) c of
                      Some n \<Rightarrow> n | None \<Rightarrow> 0)"

text \<open>\<^verbatim>\<open>parseInt\<close> on a string of decimal digits.\<close>

definition parseInt :: "string \<Rightarrow> int" where
  "parseInt ds = foldl (\<lambda>n c. 10 * n + digit_value c) 0 ds"

text \<open>\<^verbatim>\<open>String.prototype.match\<close> with a regular expression that has no flag: the
  first position of the text at which the expression matches.\<close>

fun regex_match :: "(string \<Rightarrow> 'a option) \<Rightarrow> string \<Rightarrow> 'a option" where
  "regex_match m [] = m []"
| "regex_match m (c # cs) = (case m (c # cs) of Some r \<Rightarrow> Some r | None \<Rightarrow> regex_match m cs)"

text \<open>\<^verbatim>\<open>(am|pm)?\<close> after \<^verbatim>\<open>\s*\<close>: the third group of both time expressions.\<close>

definition meridiem_group :: "string \<Rightarrow> string option" where
  "meridiem_group s =
     (let s1 = dropWhile is_space s in
      if startsWith s1 ''am'' then Some ''am''
      else if startsWith s1 ''pm'' then Some ''pm''
      else None)"

text \<open>\<^verbatim>\<open>/(\d{1,2}):?(\d{2})?\s*(am|pm)?/\<close> at the start of \<open>s\<close>: the groups 1, 2, 3.
  Every part after the first group may match the empty string, so the greedy choice
  is the match.\<close>

definition tomorrow_time_at :: "string \<Rightarrow> (string \<times> string option \<times> string option) option" where
  "tomorrow_time_at s =
     (let g1 = takeWhile is_digit (take 2 s) in
      if g1 = [] then None
      else
        let s1 = drop (length g1) s;
            s2 = (if startsWith s1 '':'' then drop 1 s1 else s1);
            two = takeWhile is_digit (take 2 s2)
        in if length two = 2 then Some (g1, Some two, meridiem_group (drop 2 s2))
           else Some (g1, None, meridiem_group s2))"

text \<open>\<^verbatim>\<open>/in (\d+) (minute|hour|day)s?/\<close> at the start of \<open>s\<close>: the groups 1 and 2.\<close>

definition in_match_at :: "string \<Rightarrow> (string \<times> time_unit) option" where
  "in_match_at s =
     (if startsWith s ''in '' then
        let g1 = takeWhile is_digit (drop 3 s);
            s1 = drop (length g1) (drop 3 s)
        in if g1 = [] then None
           else if startsWith s1 '' minute'' then Some (g1, minute)
           else if startsWith s1 '' hour'' then Some (g1, hour)
           else if startsWith s1 '' day'' then Some (g1, day)
           else None
      else None)"

text \<open>\<^verbatim>\<open>/at (\d{1,2}):(\d{2})\s*(am|pm)?/\<close> at the start of \<open>s\<close>: the groups 1, 2, 3.\<close>

definition at_time_at :: "string \<Rightarrow> (string \<times> string \<times> string option) option" where
  "at_time_at s =
     (if startsWith s ''at '' then
        let g1 = takeWhile is_digit (take 2 (drop 3 s));
            s1 = drop (length g1) (drop 3 s);
            g2 = takeWhile is_digit (take 2 (drop 1 s1))
        in if g1 = [] then None
           else if startsWith s1 '':'' \<and> length g2 = 2
                then Some (g1, g2, meridiem_group (drop 3 s1))
           else None
      else None)"

text \<open>\<^verbatim>\<open>/(\d{1,2})\/(\d{1,2})\/(\d{4})/\<close> at the start of \<open>s\<close>: the groups 1, 2, 3.\<close>

definition date_match_at :: "string \<Rightarrow> (string \<times> string \<times> string) option" where
  "date_match_at s =
     (let g1 = takeWhile is_digit (take 2 s);
          s1 = drop (length g1) s;
          g2 = takeWhile is_digit (take 2 (drop 1 s1));
          s2 = drop (length g2) (drop 1 s1);
          g3 = takeWhile is_digit (take 4 (drop 1 s2))
      in if g1 = [] \<or> g2 = [] then None
         else if startsWith s1 ''/'' \<and> startsWith s2 ''/'' \<and> length g3 = 4
              then Some (g1, g2, g3)
         else None)"

text \<open>The conversion of the hour of a 12-hour clock, as both branches write it.\<close>

definition finalHour :: "int \<Rightarrow> bool \<Rightarrow> int" where
  "finalHour h isPM =
     (let fh = h;
          fh = (if isPM \<and> h < 12 then fh + 12 else fh);
          fh = (if \<not> isPM \<and> h = 12 then 0 else fh)
      in fh)"

text \<open>\<^verbatim>\<open>parseNaturalLanguageTime(text)\<close>; \<open>now\<close> is the reading of the clock and
  \<open>moment_parse\<close> the generic parser \<^verbatim>\<open>moment(text)\<close> of the library.\<close>

definition parseNaturalLanguageTime :: "(string \<Rightarrow> moment) \<Rightarrow> int \<Rightarrow> string \<Rightarrow> moment" where
  "parseNaturalLanguageTime moment_parse now text =
     (let lowerText = toLowerCase text;
          tomorrowMatch =
            (if includes_str lowerText ''tomorrow'' then regex_match tomorrow_time_at lowerText
             else None)
      in case tomorrowMatch of
           Some (g1, g2, g3) \<Rightarrow>
             let h = parseInt g1;
                 mi = (case g2 of None \<Rightarrow> 0 | Some ds \<Rightarrow> parseInt ds);
                 isPM = (g3 = Some ''pm'')
             in time_clip (set_second 0 (set_minute mi (set_hour (finalHour h isPM)
                             (moment_add 1 day now))))
         | None \<Rightarrow>
             (case regex_match in_match_at lowerText of
                Some (g1, u) \<Rightarrow> time_clip (moment_add (parseInt g1) u now)
              | None \<Rightarrow>
                  (case regex_match at_time_at lowerText of
                     Some (g1, g2, g3) \<Rightarrow>
                       let h = parseInt g1;
                           mi = parseInt g2;
                           isPM = (g3 = Some ''pm'');
                           targetTime = set_second 0 (set_minute mi (set_hour (finalHour h isPM) now))
                       in if isBefore targetTime now then time_clip (moment_add 1 day targetTime)
                          else time_clip targetTime
                   | None \<Rightarrow>
                       (case regex_match date_match_at lowerText of
                          Some (g1, g2, g3) \<Rightarrow>
                            moment_of_array (parseInt g3) (parseInt g1 - 1) (parseInt g2)
                        | None \<Rightarrow> moment_parse text))))"

section \<open>Conversation memory (\<^verbatim>\<open>MistralService.chat\<close>)\<close>

datatype role = system | user | assistant

type_synonym turn = "role \<times> string"

text \<open>\<^verbatim>\<open>this.conversationHistory\<close>, a map from phone to the array of turns.\<close>

type_synonym histories = "string \<rightharpoonup> turn list"

text \<open>\<^verbatim>\<open>arr.splice(start, n)\<close> removes \<open>n\<close> elements from position \<open>start\<close>.\<close>

definition splice :: "nat \<Rightarrow> nat \<Rightarrow> 'a list \<Rightarrow> 'a list" where
  "splice start n xs = take start xs @ drop (start + n) xs"

text \<open>The array of messages that \<^verbatim>\<open>chat\<close> posts to the completion endpoint.\<close>

definition chat_messages :: "string \<Rightarrow> turn list \<Rightarrow> string \<Rightarrow> turn list" where
  "chat_messages system_prompt history msg =
     (let messages = [(system, system_prompt)] @ history @ [(user, msg)] in
      if 21 < length messages then splice 1 (length messages - 21) messages else messages)"

datatype chat_error = FailedToGenerate

text \<open>\<^verbatim>\<open>chat(userPhone, message, options)\<close>; \<open>complete\<close> is the completion endpoint:
  the content of the first choice, or \<open>None\<close> when the call fails or returns no choice.\<close>

definition chat ::
  "histories \<Rightarrow> (turn list \<Rightarrow> string option) \<Rightarrow> string \<Rightarrow> string \<Rightarrow> string
     \<Rightarrow> (chat_error + string) \<times> histories" where
  "chat hs complete system_prompt userPhone msg =
     (let hs1 = (if hs userPhone = None then hs(userPhone \<mapsto> []) else hs);
          history = (case hs1 userPhone of None \<Rightarrow> [] | Some h \<Rightarrow> h)
      in case complete (chat_messages system_prompt history msg) of
           None \<Rightarrow> (Inl FailedToGenerate, hs1)
         | Some assistantMessage \<Rightarrow>
             (Inr assistantMessage,
              hs1(userPhone \<mapsto> history @ [(user, msg), (assistant, assistantMessage)])))"


definition getConversationHistory :: "histories \<Rightarrow> string \<Rightarrow> turn list" where
  "getConversationHistory hs userPhone = (case hs userPhone of None \<Rightarrow> [] | Some h \<Rightarrow> h)"

section \<open>Example data\<close>

text \<open>The reminder that \<^verbatim>\<open>setReminder\<close> stores for the recipient \<^verbatim>\<open>15550100\<close> with the
  default options when the clock reads 0.\<close>

definition example_reminder :: "string \<Rightarrow> string \<Rightarrow> int \<Rightarrow> reminder" where
  "example_reminder rid msg t =
     \<lparr>reminderId = rid, phone = ''15550100'', message = msg, datetime = t,
      timezone = ''UTC'', recurring = False, recurrence_type = None, priority = ''normal'',
      status = Active, created_at = 0, sent = False, sent_at = None, error = None,
      updated_at = None\<rparr>"

text \<open>A notifier that always delivers, and one whose second call of a tick throws.\<close>

definition always_delivers :: whatsapp where
  "always_delivers n ph msg = Delivered"

definition second_send_throws :: whatsapp where
  "second_send_throws n ph msg = (if n = 1 then Throws ''timeout'' else Delivered)"

definition example_uuidv4 :: "nat \<Rightarrow> string" where
  "example_uuidv4 n = ''next-'' @ replicate n CHR ''i''"

text \<open>Fifty active reminders of one recipient, due at the instants 0 to 49.\<close>

definition fifty_active :: "reminder list" where
  "fifty_active =
     map (\<lambda>n. example_reminder (replicate (Suc n) CHR ''x'') ''earlier'' (int n)) [0..<50]"

section \<open>Facts about the store\<close>

lemma map_of_map_set:
  "map_of (map_set rems k v) k' = (if k' = k then Some v else map_of rems k')"
proof (induction rems arbitrary: k')
  case Nil
  show ?case by simp
next
  case (Cons kv rems)
  then show ?case by (cases kv) simp
qed

lemma get_or_empty_map_set:
  "get_or_empty (map_set rems k v) k' = (if k' = k then v else get_or_empty rems k')"
  by (simp add: get_or_empty_def map_of_map_set)

lemma get_or_empty_Some: "map_of rems key = Some rs \<Longrightarrow> get_or_empty rems key = rs"
  by (simp add: get_or_empty_def)

lemma map_set_twice: "map_set (map_set rems k v) k w = map_set rems k w"
proof (induction rems)
  case Nil
  show ?case by simp
next
  case (Cons kv rems)
  then show ?case by (cases kv) simp
qed

lemma findIndex_Some: "findIndex P xs = Some i \<Longrightarrow> i < length xs \<and> P (xs ! i)"
proof (induction xs arbitrary: i)
  case Nil
  then show ?case by simp
next
  case (Cons x xs)
  show ?case
  proof (cases "P x")
    case True
    with Cons.prems show ?thesis by simp
  next
    case False
    with Cons.prems obtain j where "findIndex P xs = Some j" "i = Suc j" by auto
    with Cons.IH show ?thesis by simp
  qed
qed

lemma findIndex_None: "(findIndex P xs = None) = (\<forall>x \<in> set xs. \<not> P x)"
  by (induction xs) simp_all

lemma findIndex_cong_map: "map P xs = map P ys \<Longrightarrow> findIndex P xs = findIndex P ys"
proof (induction xs arbitrary: ys)
  case Nil
  then show ?case by simp
next
  case (Cons x xs)
  then obtain y ys' where "ys = y # ys'" "P x = P y" "map P xs = map P ys'"
    by (cases ys) simp_all
  with Cons.IH show ?case by simp
qed

lemma getUserReminders_active:
  "getUserReminders rems ph (default_list_options\<lparr>status_filter := Some Active\<rparr>) =
     (take 50 (sort_key datetime (filter (\<lambda>r. status r = Active) (get_or_empty rems ph))), rems)"
  by (simp add: getUserReminders_def default_list_options_def apply_limit_def sort_value_def
      Let_def)

lemma set_active_listing:
  "set (fst (getUserReminders rems ph (default_list_options\<lparr>status_filter := Some Active\<rparr>)))
     \<subseteq> {r \<in> set (get_or_empty rems ph). status r = Active}"
proof -
  have "set (take 50 (sort_key datetime (filter (\<lambda>r. status r = Active) (get_or_empty rems ph))))
          \<subseteq> set (sort_key datetime (filter (\<lambda>r. status r = Active) (get_or_empty rems ph)))"
    by (rule set_take_subset)
  then show ?thesis by (simp add: getUserReminders_active)
qed

section \<open>Cancelling a reminder twice\<close>

lemma cancelReminder_found:
  "findIndex (\<lambda>r. reminderId r = rid) (get_or_empty rems ph) = Some i \<Longrightarrow>
   cancelReminder rems ph rid =
     (Inr ((get_or_empty rems ph ! i)\<lparr>status := Cancelled\<rparr>),
      map_set rems ph
        ((get_or_empty rems ph)[i := (get_or_empty rems ph ! i)\<lparr>status := Cancelled\<rparr>]))"
  by (simp add: cancelReminder_def Let_def)

lemma cancelReminder_missing:
  "findIndex (\<lambda>r. reminderId r = rid) (get_or_empty rems ph) = None \<Longrightarrow>
   cancelReminder rems ph rid = (Inl ReminderNotFound, rems)"
  by (simp add: cancelReminder_def Let_def)

lemma cancelReminder_again:
  assumes "fst (cancelReminder rems ph rid) = Inr r"
  shows "status r = Cancelled \<and> reminderId r = rid \<and>
         cancelReminder (snd (cancelReminder rems ph rid)) ph rid =
           (Inr r, snd (cancelReminder rems ph rid))"
proof -
  let ?rs = "get_or_empty rems ph"
  obtain i where i: "findIndex (\<lambda>r. reminderId r = rid) ?rs = Some i"
    using assms
    by (cases "findIndex (\<lambda>r. reminderId r = rid) ?rs") (simp_all add: cancelReminder_missing)
  let ?c = "(?rs ! i)\<lparr>status := Cancelled\<rparr>"
  let ?rs' = "?rs[i := ?c]"
  have first: "cancelReminder rems ph rid = (Inr ?c, map_set rems ph ?rs')"
    by (rule cancelReminder_found [OF i])
  then have r: "r = ?c" using assms by simp
  have bounds: "i < length ?rs" "reminderId (?rs ! i) = rid"
    using findIndex_Some [OF i] by simp_all
  have rs': "get_or_empty (map_set rems ph ?rs') ph = ?rs'"
    by (simp add: get_or_empty_map_set)
  have "map (\<lambda>r. reminderId r = rid) ?rs' = map (\<lambda>r. reminderId r = rid) ?rs"
    using bounds by (simp add: map_update list_update_same_conv)
  then have i': "findIndex (\<lambda>r. reminderId r = rid) ?rs' = Some i"
    using i findIndex_cong_map by metis
  have "cancelReminder (map_set rems ph ?rs') ph rid =
          (Inr ((?rs' ! i)\<lparr>status := Cancelled\<rparr>),
           map_set (map_set rems ph ?rs') ph (?rs'[i := (?rs' ! i)\<lparr>status := Cancelled\<rparr>]))"
    using cancelReminder_found [of rid "map_set rems ph ?rs'" ph i] i' rs' by simp
  moreover have "(?rs' ! i)\<lparr>status := Cancelled\<rparr> = ?c" using bounds by simp
  ultimately have "cancelReminder (map_set rems ph ?rs') ph rid = (Inr ?c, map_set rems ph ?rs')"
    by (simp add: map_set_twice)
  then show ?thesis using first r bounds by simp
qed

lemma handleCancel_unfold:
  "trim args \<noteq> [] \<Longrightarrow>
   handleCancelReminderCommand rems ph args =
     (case find (\<lambda>r. startsWith (reminderId r) (trim args))
             (fst (getUserReminders rems ph
                     (default_list_options\<lparr>status_filter := Some Active\<rparr>))) of
        None \<Rightarrow> (ReminderNotFoundReply, rems)
      | Some r \<Rightarrow>
          (case cancelReminder rems ph (reminderId r) of
             (Inl e, rems2) \<Rightarrow> (CouldNotCancel, rems2)
           | (Inr c, rems2) \<Rightarrow> (ReminderCancelled r, rems2)))"
  by (simp add: handleCancelReminderCommand_def getUserReminders_active)

lemma handleCancel_twice:
  assumes first: "fst (handleCancelReminderCommand rems ph args) = ReminderCancelled c"
      and ids: "distinct (map reminderId (get_or_empty rems ph))"
      and unambiguous: "\<forall>x \<in> set (get_or_empty rems ph).
                          startsWith (reminderId x) (trim args) \<longrightarrow> reminderId x = reminderId c"
  shows "fst (handleCancelReminderCommand (snd (handleCancelReminderCommand rems ph args)) ph args)
           = ReminderNotFoundReply"
proof -
  let ?rs = "get_or_empty rems ph"
  let ?P = "\<lambda>r. startsWith (reminderId r) (trim args)"
  let ?L = "fst (getUserReminders rems ph (default_list_options\<lparr>status_filter := Some Active\<rparr>))"
  have args: "trim args \<noteq> []"
    using first by (auto simp: handleCancelReminderCommand_def)
  obtain f where f: "find ?P ?L = Some f"
    using first args by (cases "find ?P ?L") (simp_all add: handleCancel_unfold)
  have fc: "f = c"
    using first args f by (simp add: handleCancel_unfold split: prod.splits sum.splits)
  have "c \<in> set ?L" using f fc by (auto simp: find_Some_iff)
  then have c_in: "c \<in> set ?rs" using set_active_listing by blast
  then have "findIndex (\<lambda>r. reminderId r = reminderId c) ?rs \<noteq> None"
    by (auto simp: findIndex_None)
  then obtain i where i: "findIndex (\<lambda>r. reminderId r = reminderId c) ?rs = Some i" by blast
  have bounds: "i < length ?rs" "reminderId (?rs ! i) = reminderId c"
    using findIndex_Some [OF i] by simp_all
  let ?rs' = "?rs[i := (?rs ! i)\<lparr>status := Cancelled\<rparr>]"
  let ?rems' = "map_set rems ph ?rs'"
  have snd1: "snd (handleCancelReminderCommand rems ph args) = ?rems'"
    using args f fc by (simp add: handleCancel_unfold cancelReminder_found [OF i])
  have rs': "get_or_empty ?rems' ph = ?rs'" by (simp add: get_or_empty_map_set)
  have none: "\<not> ?P x" if x: "x \<in> set ?rs'" and act: "status x = Active" for x
  proof
    assume px: "?P x"
    from x obtain j where j: "j < length ?rs" "x = ?rs' ! j"
      by (auto simp: in_set_conv_nth)
    show False
    proof (cases "j = i")
      case True
      with j bounds act show False by simp
    next
      case False
      with j have xj: "x = ?rs ! j" by simp
      then have "x \<in> set ?rs" using j by simp
      with px unambiguous have "reminderId x = reminderId c" by blast
      then have "map reminderId ?rs ! j = map reminderId ?rs ! i"
        using xj j bounds by simp
      moreover have "j < length (map reminderId ?rs)" "i < length (map reminderId ?rs)"
        using j bounds by simp_all
      ultimately have "j = i"
        using nth_eq_iff_index_eq [OF ids] by blast
      with False show False by simp
    qed
  qed
  let ?L' = "fst (getUserReminders ?rems' ph (default_list_options\<lparr>status_filter := Some Active\<rparr>))"
  have "\<forall>x \<in> set ?L'. \<not> ?P x"
    using set_active_listing [of ?rems' ph] none rs' by auto
  then have "find ?P ?L' = None" by (simp add: find_None_iff)
  then show ?thesis using args snd1 by (simp add: handleCancel_unfold)
qed

text \<open>
  Claim C1, as the source has it.  \<^verbatim>\<open>cancelReminder\<close> looks the identifier up among all
  reminders of the recipient, whatever their status: the first call for an existing
  identifier succeeds and returns the reminder with status cancelled, and a second call
  for the same recipient and identifier succeeds again, returns the same reminder and
  leaves the store as it is.  The answer "not found" to a second cancel comes from the
  cancel command, which searches the active reminders only: once the command has
  cancelled a reminder, the same command finds nothing, when the identifiers of the
  recipient are distinct and the prefix typed matches no other identifier.
\<close>

theorem cancel_twice:
  assumes "rid \<in> set (map reminderId (get_or_empty rems ph))"
  shows "(\<exists>r. fst (cancelReminder rems ph rid) = Inr r \<and> status r = Cancelled \<and>
              reminderId r = rid \<and>
              cancelReminder (snd (cancelReminder rems ph rid)) ph rid =
                (Inr r, snd (cancelReminder rems ph rid))) \<and>
         (fst (handleCancelReminderCommand rems ph args) = ReminderCancelled c \<longrightarrow>
          distinct (map reminderId (get_or_empty rems ph)) \<longrightarrow>
          (\<forall>x \<in> set (get_or_empty rems ph).
               startsWith (reminderId x) (trim args) \<longrightarrow> reminderId x = reminderId c) \<longrightarrow>
          fst (handleCancelReminderCommand (snd (handleCancelReminderCommand rems ph args)) ph args)
            = ReminderNotFoundReply)"
proof -
  from assms have "findIndex (\<lambda>r. reminderId r = rid) (get_or_empty rems ph) \<noteq> None"
    by (auto simp: findIndex_None)
  then obtain i where "findIndex (\<lambda>r. reminderId r = rid) (get_or_empty rems ph) = Some i"
    by blast
  then have "fst (cancelReminder rems ph rid) =
               Inr ((get_or_empty rems ph ! i)\<lparr>status := Cancelled\<rparr>)"
    by (simp add: cancelReminder_found)
  from cancelReminder_again [OF this] this have store: "\<exists>r. fst (cancelReminder rems ph rid) = Inr r \<and>
      status r = Cancelled \<and> reminderId r = rid \<and>
      cancelReminder (snd (cancelReminder rems ph rid)) ph rid =
        (Inr r, snd (cancelReminder rems ph rid))"
    by blast
  show ?thesis using store handleCancel_twice by blast
qed

theorem cancel_twice_witness:
  "cancelReminder
     (snd (cancelReminder [(''15550100'', [example_reminder ''ab12'' ''call mom'' 1000])]
             ''15550100'' ''ab12''))
     ''15550100'' ''ab12'' =
     (Inr ((example_reminder ''ab12'' ''call mom'' 1000)\<lparr>status := Cancelled\<rparr>),
      [(''15550100'', [(example_reminder ''ab12'' ''call mom'' 1000)\<lparr>status := Cancelled\<rparr>])]) \<and>
   fst (handleCancelReminderCommand
          (snd (handleCancelReminderCommand
                  [(''15550100'', [example_reminder ''ab12'' ''call mom'' 1000])]
                  ''15550100'' ''ab''))
          ''15550100'' ''ab'') = ReminderNotFoundReply"
proof -
  let ?rems = "[(''15550100'', [example_reminder ''ab12'' ''call mom'' 1000])]"
  have h: "''ab12'' \<in> set (map reminderId (get_or_empty ?rems ''15550100''))"
    by (simp add: get_or_empty_def example_reminder_def)
  have h1: "fst (handleCancelReminderCommand ?rems ''15550100'' ''ab'') =
              ReminderCancelled (example_reminder ''ab12'' ''call mom'' 1000)"
    by code_simp
  have h2: "distinct (map reminderId (get_or_empty ?rems ''15550100''))"
    by (simp add: get_or_empty_def)
  have h3: "\<forall>x \<in> set (get_or_empty ?rems ''15550100'').
              startsWith (reminderId x) (trim ''ab'') \<longrightarrow>
              reminderId x = reminderId (example_reminder ''ab12'' ''call mom'' 1000)"
    by (simp add: get_or_empty_def)
  have first: "cancelReminder ?rems ''15550100'' ''ab12'' =
     (Inr ((example_reminder ''ab12'' ''call mom'' 1000)\<lparr>status := Cancelled\<rparr>),
      [(''15550100'', [(example_reminder ''ab12'' ''call mom'' 1000)\<lparr>status := Cancelled\<rparr>])])"
    by code_simp
  note t = cancel_twice [OF h, of "''ab''" "example_reminder ''ab12'' ''call mom'' 1000"]
  from t obtain r where "fst (cancelReminder ?rems ''15550100'' ''ab12'') = Inr r"
    "cancelReminder (snd (cancelReminder ?rems ''15550100'' ''ab12'')) ''15550100'' ''ab12'' =
       (Inr r, snd (cancelReminder ?rems ''15550100'' ''ab12''))"
    by blast
  with first have "cancelReminder (snd (cancelReminder ?rems ''15550100'' ''ab12''))
      ''15550100'' ''ab12'' =
     (Inr ((example_reminder ''ab12'' ''call mom'' 1000)\<lparr>status := Cancelled\<rparr>),
      [(''15550100'', [(example_reminder ''ab12'' ''call mom'' 1000)\<lparr>status := Cancelled\<rparr>])])"
    by simp
  moreover from t h1 h2 h3 have "fst (handleCancelReminderCommand
          (snd (handleCancelReminderCommand ?rems ''15550100'' ''ab'')) ''15550100'' ''ab'')
        = ReminderNotFoundReply"
    by blast
  ultimately show ?thesis by simp
qed

text \<open>Against claim C1 as stated: the second \<^verbatim>\<open>cancelReminder\<close> call for the same
  recipient and identifier does not fail; it returns the cancelled reminder again.\<close>

theorem cancel_twice_counterexample:
  "fst (cancelReminder
          (snd (cancelReminder [(''15550100'', [example_reminder ''ab12'' ''call mom'' 1000])]
                  ''15550100'' ''ab12''))
          ''15550100'' ''ab12'') \<noteq> Inl ReminderNotFound \<and>
   fst (cancelReminder
          (snd (cancelReminder [(''15550100'', [example_reminder ''ab12'' ''call mom'' 1000])]
                  ''15550100'' ''ab12''))
          ''15550100'' ''ab12'') =
     Inr ((example_reminder ''ab12'' ''call mom'' 1000)\<lparr>status := Cancelled\<rparr>)"
  by code_simp

section \<open>Delivery of recurring reminders\<close>

lemma set_slot_Some:
  "map_of rems key = Some rs \<Longrightarrow> set_slot rems key i r = map_set rems key (rs[i := r])"
  by (simp add: set_slot_def)

lemma scheduleNextRecurrence_known:
  assumes "recurrence_type r = Some rt" and "rt \<noteq> OtherType"
  shows "scheduleNextRecurrence rems now uuid r =
           push_to rems (phone r)
             (r\<lparr>reminderId := uuid,
                datetime := (case rt of Daily \<Rightarrow> datetime r + 86400000
                             | Weekly \<Rightarrow> datetime r + 604800000
                             | Monthly \<Rightarrow> add_months 1 (datetime r)
                             | OtherType \<Rightarrow> datetime r),
                sent := False, status := Active, created_at := now\<rparr>)"
  using assms by (cases rt) (simp_all add: scheduleNextRecurrence_def)

text \<open>
  Claim C2, as the source has it.  When \<^verbatim>\<open>sendReminder\<close> delivers a stored reminder
  whose \<^verbatim>\<open>recurring\<close> flag is set and whose recurrence type is daily, weekly or monthly,
  the array of the recipient afterwards is the old array with the delivered reminder
  flagged as sent (its status is not touched, so it stays active), followed by exactly
  one new reminder: a copy of the delivered one (same message, phone and recurrence)
  with a fresh identifier, active and unsent, due one day, one week or one month after
  the due time of the delivered reminder, whatever the clock reads.
\<close>

theorem recurring_delivery_successor:
  assumes "map_of rems key = Some rs" and "i < length rs" and "phone (rs ! i) = key"
      and "recurring (rs ! i)" and "recurrence_type (rs ! i) = Some rt" and "rt \<noteq> OtherType"
      and "sendMessage n (phone (rs ! i)) (message (rs ! i)) = Delivered"
  shows "sendReminder rems now (Some sendMessage) uuids n key i =
           map_set rems key
             (rs[i := (rs ! i)\<lparr>sent := True, sent_at := Some now\<rparr>] @
              [(rs ! i)\<lparr>sent := True, sent_at := Some now\<rparr>
                 \<lparr>reminderId := uuids n,
                  datetime := (case rt of Daily \<Rightarrow> datetime (rs ! i) + 86400000
                               | Weekly \<Rightarrow> datetime (rs ! i) + 604800000
                               | Monthly \<Rightarrow> add_months 1 (datetime (rs ! i))
                               | OtherType \<Rightarrow> datetime (rs ! i)),
                  sent := False, status := Active, created_at := now\<rparr>])"
proof -
  let ?r1 = "(rs ! i)\<lparr>sent := True, sent_at := Some now\<rparr>"
  let ?rems1 = "map_set rems key (rs[i := ?r1])"
  have r1: "recurring ?r1" "recurrence_type ?r1 = Some rt" "phone ?r1 = key"
    using assms by simp_all
  have "sendReminder rems now (Some sendMessage) uuids n key i =
          scheduleNextRecurrence ?rems1 now (uuids n) ?r1"
    using assms by (simp add: sendReminder_def get_or_empty_Some set_slot_Some Let_def)
  also have "\<dots> = push_to ?rems1 key
             (?r1\<lparr>reminderId := uuids n,
                datetime := (case rt of Daily \<Rightarrow> datetime ?r1 + 86400000
                             | Weekly \<Rightarrow> datetime ?r1 + 604800000
                             | Monthly \<Rightarrow> add_months 1 (datetime ?r1)
                             | OtherType \<Rightarrow> datetime ?r1),
                sent := False, status := Active, created_at := now\<rparr>)"
    using scheduleNextRecurrence_known [OF r1(2) assms(6)] r1(3) by simp
  also have "\<dots> = map_set rems key (rs[i := ?r1] @
             [?r1\<lparr>reminderId := uuids n,
                datetime := (case rt of Daily \<Rightarrow> datetime ?r1 + 86400000
                             | Weekly \<Rightarrow> datetime ?r1 + 604800000
                             | Monthly \<Rightarrow> add_months 1 (datetime ?r1)
                             | OtherType \<Rightarrow> datetime ?r1),
                sent := False, status := Active, created_at := now\<rparr>])"
    by (simp add: push_to_def map_of_map_set map_set_twice)
  finally show ?thesis by (cases rt) simp_all
qed

theorem recurring_delivery_successor_witness:
  "sendReminder
     [(''15550100'', [(example_reminder ''a'' ''pay rent'' (civil 2024 1 31 9 0))
                        \<lparr>recurring := True, recurrence_type := Some Monthly\<rparr>])]
     (civil 2024 1 31 9 0 + 20000) (Some always_delivers) example_uuidv4 0 ''15550100'' 0 =
   [(''15550100'',
     [(example_reminder ''a'' ''pay rent'' (civil 2024 1 31 9 0))
        \<lparr>recurring := True, recurrence_type := Some Monthly, status := Active, sent := True,
         sent_at := Some (civil 2024 1 31 9 0 + 20000)\<rparr>,
      (example_reminder ''next-'' ''pay rent'' (civil 2024 2 29 9 0))
        \<lparr>recurring := True, recurrence_type := Some Monthly, status := Active, sent := False,
         created_at := civil 2024 1 31 9 0 + 20000,
         sent_at := Some (civil 2024 1 31 9 0 + 20000)\<rparr>])]"
proof -
  let ?r = "(example_reminder ''a'' ''pay rent'' (civil 2024 1 31 9 0))
              \<lparr>recurring := True, recurrence_type := Some Monthly\<rparr>"
  let ?rems = "[(''15550100'', [?r])]"
  have h1: "map_of ?rems ''15550100'' = Some [?r]" by simp
  have h2: "0 < length [?r]" by simp
  have h3: "phone ([?r] ! 0) = ''15550100''" by (simp add: example_reminder_def)
  have h4: "recurring ([?r] ! 0)" by simp
  have h5: "recurrence_type ([?r] ! 0) = Some Monthly" by simp
  have h6: "Monthly \<noteq> OtherType" by simp
  have h7: "always_delivers 0 (phone ([?r] ! 0)) (message ([?r] ! 0)) = Delivered"
    by (simp add: always_delivers_def)
  have month: "add_months 1 (civil 2024 1 31 9 0) = civil 2024 2 29 9 0" by code_simp
  from recurring_delivery_successor
         [where sendMessage = always_delivers and n = 0 and uuids = example_uuidv4
            and now = "civil 2024 1 31 9 0 + 20000", OF h1 h2 h3 h4 h5 h6 h7]
  show ?thesis
    by (simp add: month example_reminder_def example_uuidv4_def)
qed

text \<open>Against claim C2 as stated: after the tick has delivered a daily reminder, the
  delivered original still has the status active (with its sent flag set); the one
  successor is due one day after the original.\<close>

theorem recurring_original_counterexample:
  "checkReminders
     [(''15550100'', [(example_reminder ''a'' ''stand-up'' (civil 2024 1 1 9 0))
                        \<lparr>recurring := True, recurrence_type := Some Daily\<rparr>])]
     (civil 2024 1 1 9 0 + 20000) (Some always_delivers) example_uuidv4 =
   Some (1,
     [(''15550100'',
       [(example_reminder ''a'' ''stand-up'' (civil 2024 1 1 9 0))
          \<lparr>recurring := True, recurrence_type := Some Daily, status := Active, sent := True,
           sent_at := Some (civil 2024 1 1 9 0 + 20000)\<rparr>,
        (example_reminder ''next-'' ''stand-up'' (civil 2024 1 2 9 0))
          \<lparr>recurring := True, recurrence_type := Some Daily,
           created_at := civil 2024 1 1 9 0 + 20000,
           sent_at := Some (civil 2024 1 1 9 0 + 20000)\<rparr>])])"
  by code_simp

section \<open>The dispatcher tick\<close>

lemma is_due_iff:
  "is_due now r =
     (status r = Active \<and> \<not> sent r \<and> datetime r \<le> now \<and> now - datetime r < 120000)"
  by (auto simp: is_due_def isSameOrAfter_def diff_minutes_def)

text \<open>
  Claim C3 at its scenario: three due reminders, the notifier throws on the second
  send.  The tick returns; the first and the third reminder are marked sent, the second
  has the status failed; the count returned is 3, the number of sends attempted, although
  two reminders were delivered.
\<close>

theorem tick_counts_failed_send:
  "checkReminders
     [(''15550100'',
       [example_reminder ''a'' ''call mom'' (civil 2024 1 1 9 0),
        example_reminder ''b'' ''buy milk'' (civil 2024 1 1 9 0),
        example_reminder ''c'' ''pay rent'' (civil 2024 1 1 9 0)])]
     (civil 2024 1 1 9 0) (Some second_send_throws) example_uuidv4 =
   Some (3,
     [(''15550100'',
       [(example_reminder ''a'' ''call mom'' (civil 2024 1 1 9 0))
          \<lparr>status := Sent, sent := True, sent_at := Some (civil 2024 1 1 9 0)\<rparr>,
        (example_reminder ''b'' ''buy milk'' (civil 2024 1 1 9 0))
          \<lparr>status := Failed, sent := False, error := Some ''timeout''\<rparr>,
        (example_reminder ''c'' ''pay rent'' (civil 2024 1 1 9 0))
          \<lparr>status := Sent, sent := True, sent_at := Some (civil 2024 1 1 9 0)\<rparr>])])"
  by code_simp

text \<open>
  Claim C5 at a reminder that is one and a half minutes late: the difference in whole
  minutes is 1, so the tick delivers it, beyond a grace window of one minute.
\<close>

theorem tick_delivers_ninety_seconds_late:
  "checkReminders
     [(''15550100'', [example_reminder ''a'' ''call mom'' (civil 2024 1 1 9 0)])]
     (civil 2024 1 1 9 0 + 90000) (Some always_delivers) example_uuidv4 =
   Some (1,
     [(''15550100'',
       [(example_reminder ''a'' ''call mom'' (civil 2024 1 1 9 0))
          \<lparr>status := Sent, sent := True, sent_at := Some (civil 2024 1 1 9 0 + 90000)\<rparr>])])"
  by code_simp

section \<open>Validation of the due time\<close>

lemma isl_fst_setReminder:
  "isl (fst (setReminder rems now uuid ph msg (Some t) opts)) = (t < now)"
  by (simp add: setReminder_def isBefore_def Let_def)

lemma fst_setReminder_past:
  "t < now \<Longrightarrow> fst (setReminder rems now uuid ph msg (Some t) opts) = Inl ReminderTimeInPast"
  by (simp add: setReminder_def isBefore_def Let_def)

lemma validate_updates_Truthy:
  "upd_datetime u = Some (Truthy (Some t)) \<Longrightarrow>
   validate_updates now u = (if t < now then Inl ReminderTimeInPast else Inr (Some t))"
  by (simp add: validate_updates_def isBefore_def)

lemma fst_updateReminder_found:
  "findIndex (\<lambda>r. reminderId r = rid) (get_or_empty rems ph) = Some i \<Longrightarrow>
   upd_datetime u = Some (Truthy (Some t)) \<Longrightarrow>
   fst (updateReminder rems now ph rid u) =
     (if t < now then Inl ReminderTimeInPast
      else Inr ((assign (get_or_empty rems ph ! i) u (Some t))\<lparr>updated_at := Some now\<rparr>))"
  by (simp add: updateReminder_def validate_updates_Truthy Let_def)

text \<open>The falsy datetime 0 in a patch is not validated: the update of an existing
  reminder succeeds whatever the clock reads and stores the epoch as the due time.\<close>

lemma updateReminder_zero_datetime:
  "findIndex (\<lambda>r. reminderId r = rid) (get_or_empty rems ph) = Some i \<Longrightarrow>
   upd_datetime u = Some NumberZero \<Longrightarrow>
   fst (updateReminder rems now ph rid u) =
     Inr ((assign (get_or_empty rems ph ! i) u (Some 0))\<lparr>updated_at := Some now\<rparr>)"
  by (simp add: updateReminder_def validate_updates_def Let_def)

text \<open>
  Claim C4, as the source has it.  A create with a due time that \<^verbatim>\<open>moment\<close> accepts
  fails exactly when the due time is strictly before now, and then with the error
  "Reminder time cannot be in the past"; a due time equal to now is accepted.  This
  holds for every store and recipient, a first create included.  The same holds for an
  update of an existing reminder whose patch carries a truthy due time that \<^verbatim>\<open>moment\<close>
  accepts.
\<close>

theorem dueAt_rejected_iff_before_now:
  "isl (fst (setReminder rems now uuid ph msg (Some t) opts)) = (t < now) \<and>
   (t < now \<longrightarrow>
      fst (setReminder rems now uuid ph msg (Some t) opts) = Inl ReminderTimeInPast) \<and>
   (findIndex (\<lambda>r. reminderId r = rid) (get_or_empty urems uph) \<noteq> None \<longrightarrow>
    upd_datetime u = Some (Truthy (Some t)) \<longrightarrow>
      isl (fst (updateReminder urems now uph rid u)) = (t < now) \<and>
      (t < now \<longrightarrow> fst (updateReminder urems now uph rid u) = Inl ReminderTimeInPast))"
proof -
  have "isl (fst (updateReminder urems now uph rid u)) = (t < now) \<and>
        (t < now \<longrightarrow> fst (updateReminder urems now uph rid u) = Inl ReminderTimeInPast)"
    if found: "findIndex (\<lambda>r. reminderId r = rid) (get_or_empty urems uph) \<noteq> None"
      and patch: "upd_datetime u = Some (Truthy (Some t))"
  proof -
    from found obtain i
      where "findIndex (\<lambda>r. reminderId r = rid) (get_or_empty urems uph) = Some i"
      by blast
    from fst_updateReminder_found [OF this patch] show ?thesis by simp
  qed
  then show ?thesis
    using isl_fst_setReminder fst_setReminder_past by blast
qed

theorem dueAt_rejected_iff_before_now_witness:
  "\<not> isl (fst (setReminder [] 1000 ''b'' ''15550100'' ''buy milk'' (Some 1000)
              default_options)) \<and>
   fst (setReminder [] 1000 ''b'' ''15550100'' ''buy milk'' (Some 999) default_options)
     = Inl ReminderTimeInPast \<and>
   \<not> isl (fst (updateReminder [(''15550100'', [example_reminder ''a'' ''call mom'' 5000])]
              1000 ''15550100'' ''a''
              (no_updates\<lparr>upd_datetime := Some (Truthy (Some 1000))\<rparr>))) \<and>
   fst (updateReminder [(''15550100'', [example_reminder ''a'' ''call mom'' 5000])]
          1000 ''15550100'' ''a'' (no_updates\<lparr>upd_datetime := Some (Truthy (Some 999))\<rparr>))
     = Inl ReminderTimeInPast"
proof -
  let ?rems = "[(''15550100'', [example_reminder ''a'' ''call mom'' 5000])]"
  have h1: "findIndex (\<lambda>r. reminderId r = ''a'') (get_or_empty ?rems ''15550100'') \<noteq> None"
    by (simp add: get_or_empty_def example_reminder_def)
  have h2: "upd_datetime (no_updates\<lparr>upd_datetime := Some (Truthy (Some 1000))\<rparr>)
              = Some (Truthy (Some 1000))"
    by simp
  have h3: "upd_datetime (no_updates\<lparr>upd_datetime := Some (Truthy (Some 999))\<rparr>)
              = Some (Truthy (Some 999))"
    by simp
  note at_now = dueAt_rejected_iff_before_now
      [where rems = "[]" and now = 1000 and uuid = "''b''" and ph = "''15550100''"
         and msg = "''buy milk''" and t = 1000 and opts = default_options
         and urems = ?rems and uph = "''15550100''" and rid = "''a''"
         and u = "no_updates\<lparr>upd_datetime := Some (Truthy (Some 1000))\<rparr>"]
  note before_now = dueAt_rejected_iff_before_now
      [where rems = "[]" and now = 1000 and uuid = "''b''" and ph = "''15550100''"
         and msg = "''buy milk''" and t = 999 and opts = default_options
         and urems = ?rems and uph = "''15550100''" and rid = "''a''"
         and u = "no_updates\<lparr>upd_datetime := Some (Truthy (Some 999))\<rparr>"]
  from at_now h1 h2 before_now h3 show ?thesis by simp
qed

text \<open>Against claim C4 as stated: a create whose due time equals now succeeds.\<close>

theorem create_at_now_counterexample:
  "fst (setReminder [] 1000 ''a'' ''15550100'' ''call mom'' (Some 1000) default_options) =
     Inr ((example_reminder ''a'' ''call mom'' 1000)\<lparr>created_at := 1000\<rparr>)"
  by code_simp

section \<open>A failed update\<close>

text \<open>
  Claim C10.  When \<^verbatim>\<open>updateReminder\<close> raises an error (the reminder is not found, the
  due time of the patch is not a valid moment, or it is before now), the store after
  the call is the store before it: the patch is validated before it is applied.
\<close>

theorem updateReminder_failure_keeps_store:
  "fst (updateReminder rems now ph rid updates) = Inl e \<Longrightarrow>
   snd (updateReminder rems now ph rid updates) = rems"
  unfolding updateReminder_def Let_def
  by (simp split: option.splits sum.splits)

theorem updateReminder_failure_keeps_store_witness:
  "fst (updateReminder [(''15550100'', [example_reminder ''a'' ''call mom'' 5000])]
          1000 ''15550100'' ''a''
          (no_updates\<lparr>upd_message := Some ''call dad'', upd_datetime := Some (Truthy (Some 999))\<rparr>))
     = Inl ReminderTimeInPast \<and>
   snd (updateReminder [(''15550100'', [example_reminder ''a'' ''call mom'' 5000])]
          1000 ''15550100'' ''a''
          (no_updates\<lparr>upd_message := Some ''call dad'', upd_datetime := Some (Truthy (Some 999))\<rparr>))
     = [(''15550100'', [example_reminder ''a'' ''call mom'' 5000])]"
proof -
  have h: "fst (updateReminder [(''15550100'', [example_reminder ''a'' ''call mom'' 5000])]
          1000 ''15550100'' ''a''
          (no_updates\<lparr>upd_message := Some ''call dad'', upd_datetime := Some (Truthy (Some 999))\<rparr>))
     = Inl ReminderTimeInPast"
    by code_simp
  from updateReminder_failure_keeps_store [OF h] h show ?thesis by simp
qed

section \<open>Create, then list\<close>

lemma setReminder_accepts:
  assumes "now \<le> t"
  shows "setReminder rems now uuid ph msg (Some t) opts =
           (Inr \<lparr>reminderId = uuid, phone = ph, message = msg, datetime = t,
                  timezone = opt_timezone opts, recurring = opt_recurring opts,
                  recurrence_type = opt_recurrence_type opts, priority = opt_priority opts,
                  status = Active, created_at = now, sent = False, sent_at = None,
                  error = None, updated_at = None\<rparr>,
            map_set rems ph (get_or_empty rems ph @
              [\<lparr>reminderId = uuid, phone = ph, message = msg, datetime = t,
                  timezone = opt_timezone opts, recurring = opt_recurring opts,
                  recurrence_type = opt_recurrence_type opts, priority = opt_priority opts,
                  status = Active, created_at = now, sent = False, sent_at = None,
                  error = None, updated_at = None\<rparr>]))"
proof (cases "map_of rems ph")
  case None
  with assms show ?thesis
    by (simp add: setReminder_def isBefore_def push_to_def get_or_empty_def map_of_map_set
        map_set_twice Let_def)
next
  case (Some rs)
  with assms show ?thesis
    by (simp add: setReminder_def isBefore_def push_to_def get_or_empty_def Let_def)
qed

text \<open>
  Claim C7, as the source has it.  After a create with a due time not before now, the
  list of the recipient's active reminders, taken with the default limit of 50, holds
  exactly one reminder with that recipient, text and due time, provided that the
  recipient had fewer than 50 active reminders before and none of them had the same
  text and due time.
\<close>

theorem create_then_list_active:
  assumes "now \<le> t"
      and "length (filter (\<lambda>r. status r = Active) (get_or_empty rems ph)) < 50"
      and "\<forall>r \<in> set (get_or_empty rems ph).
             \<not> (status r = Active \<and> phone r = ph \<and> message r = msg \<and> datetime r = t)"
  shows "length (filter (\<lambda>r. phone r = ph \<and> message r = msg \<and> datetime r = t)
           (fst (getUserReminders (snd (setReminder rems now uuid ph msg (Some t) opts)) ph
                  (default_list_options\<lparr>status_filter := Some Active\<rparr>)))) = 1"
proof -
  let ?new = "\<lparr>reminderId = uuid, phone = ph, message = msg, datetime = t,
                  timezone = opt_timezone opts, recurring = opt_recurring opts,
                  recurrence_type = opt_recurrence_type opts, priority = opt_priority opts,
                  status = Active, created_at = now, sent = False, sent_at = None,
                  error = None, updated_at = None\<rparr>"
  let ?old = "get_or_empty rems ph"
  let ?act = "filter (\<lambda>r. status r = Active) ?old @ [?new]"
  let ?Q = "\<lambda>r. phone r = ph \<and> message r = msg \<and> datetime r = t"
  have listing: "fst (getUserReminders (snd (setReminder rems now uuid ph msg (Some t) opts)) ph
                  (default_list_options\<lparr>status_filter := Some Active\<rparr>))
                 = take 50 (sort_key datetime ?act)"
    by (simp add: setReminder_accepts [OF assms(1)] getUserReminders_active get_or_empty_map_set)
  have "length (sort_key datetime ?act) \<le> 50" using assms(2) by simp
  then have "take 50 (sort_key datetime ?act) = sort_key datetime ?act" by simp
  moreover have "length (filter ?Q (sort_key datetime ?act)) = length (filter ?Q ?act)"
    by (simp add: filter_sort)
  moreover have "filter ?Q (filter (\<lambda>r. status r = Active) ?old) = []"
    using assms(3) by (auto simp: filter_empty_conv)
  ultimately show ?thesis using listing by simp
qed

theorem create_then_list_active_witness:
  "length (filter (\<lambda>r. phone r = ''15550100'' \<and> message r = ''buy milk'' \<and> datetime r = 7000)
     (fst (getUserReminders
             (snd (setReminder [(''15550100'', [example_reminder ''a'' ''call mom'' 5000])]
                     1000 ''b'' ''15550100'' ''buy milk'' (Some 7000) default_options))
             ''15550100'' (default_list_options\<lparr>status_filter := Some Active\<rparr>)))) = 1"
proof -
  let ?rems = "[(''15550100'', [example_reminder ''a'' ''call mom'' 5000])]"
  have h1: "(1000::int) \<le> 7000" by simp
  have h2: "length (filter (\<lambda>r. status r = Active) (get_or_empty ?rems ''15550100'')) < 50"
    by (simp add: get_or_empty_def)
  have h3: "\<forall>r \<in> set (get_or_empty ?rems ''15550100'').
             \<not> (status r = Active \<and> phone r = ''15550100'' \<and> message r = ''buy milk'' \<and>
                datetime r = 7000)"
    by (simp add: get_or_empty_def example_reminder_def)
  from create_then_list_active [OF h1 h2 h3] show ?thesis .
qed

text \<open>Against claim C7 as stated: for a recipient who already has 50 active reminders
  that are due earlier, the list taken after the create holds no reminder with the
  created text and due time; the default limit has cut it off.\<close>

theorem create_then_list_counterexample:
  "filter (\<lambda>r. phone r = ''15550100'' \<and> message r = ''call mom'' \<and> datetime r = 1000)
     (fst (getUserReminders
             (snd (setReminder [(''15550100'', fifty_active)] 100 ''new'' ''15550100''
                     ''call mom'' (Some 1000) default_options))
             ''15550100'' (default_list_options\<lparr>status_filter := Some Active\<rparr>))) = []"
  by code_simp

section \<open>Conversation memory\<close>






text \<open>The array stored for the recipient is another matter: \<^verbatim>\<open>chat\<close> trims the array
  it posts, not the stored one, to which every answered call appends two turns.\<close>

lemma chat_appends:
  assumes "complete (chat_messages sp (getConversationHistory hs A) m) = Some a"
  shows "getConversationHistory (snd (chat hs complete sp A m)) A =
           getConversationHistory hs A @ [(user, m), (assistant, a)]"
  using assms by (cases "hs A") (simp_all add: chat_def getConversationHistory_def Let_def)



text \<open>With thirty turns stored, the list posted holds the system instruction, the last
  nineteen stored turns and the current message.\<close>

lemma chat_messages_thirty_example:
  "chat_messages ''be helpful'' (replicate 30 (user, ''hi'')) ''thanks'' =
     (system, ''be helpful'') # replicate 19 (user, ''hi'') @ [(user, ''thanks'')]"
  by code_simp

section \<open>The time parser\<close>

lemma parse_at_1430_example:
  "parseNaturalLanguageTime moment_parse (civil 2024 1 1 15 0) ''at 14:30'' =
     Some (civil 2024 1 2 14 30)"
  by code_simp

lemma finalHour_cases:
  "finalHour h isPM = (if isPM then (if h < 12 then h + 12 else h) else (if h = 12 then 0 else h))"
  by (simp add: finalHour_def)

text \<open>
  Claim C8 at the text \<^verbatim>\<open>at 12:30\<close>, read at 2024-01-01 10:00: the text has no
  \<^verbatim>\<open>am\<close> or \<^verbatim>\<open>pm\<close>, but the parser turns the hour 12 into 0, finds 00:30 of today
  in the past and returns 2024-01-02 00:30, not 2024-01-01 12:30.
\<close>

theorem parse_at_noon_without_suffix:
  "parseNaturalLanguageTime moment_parse (civil 2024 1 1 10 0) ''at 12:30'' =
     Some (civil 2024 1 2 0 30)"
  by code_simp

section \<open>Intent classification: examples and priority\<close>

lemma detectIntent_image_example:
  "detectIntent ''generate image of a cat'' = image_generation"
  by code_simp

lemma detectIntent_reminder_example:
  "detectIntent ''remind me to call mom at 3pm'' = reminder_setting"
  by code_simp

lemma detectIntent_question_example:
  "detectIntent ''what is AI?'' = question"
  by code_simp

lemma detectIntent_greeting_example:
  "detectIntent ''hello there'' = greeting"
  by code_simp

lemma detectIntent_empty_example:
  "detectIntent [] = chat_intent"
  by code_simp

lemma detectIntent_unmatched_example:
  "detectIntent ''ok, see you'' = chat_intent"
  by code_simp

lemma detectIntent_priority_examples:
  "detectIntent ''Hi, what picture should I schedule?'' = image_generation"
  "detectIntent ''hey, when is my reminder?'' = reminder_setting"
  "detectIntent ''hi, why?'' = question"
  by code_simp+

lemma detectIntent_chain:
  "detectIntent m =
     (if image_cue (toLowerCase m) then image_generation
      else if reminder_cue (toLowerCase m) then reminder_setting
      else if question_cue (toLowerCase m) then question
      else if greeting_cue (toLowerCase m) then greeting
      else chat_intent)"
  by (simp add: detectIntent_def Let_def)

text \<open>
  Claim C9.  The intent of a message is the first of image, reminder, question and
  greeting whose cue its lower-case text shows, and chat when it shows none; the
  messages of the claim, the empty one among them, are classified as it says, and a
  message that shows several cues gets the intent of the first.
\<close>

theorem detectIntent_first_match:
  "detectIntent m =
     (if image_cue (toLowerCase m) then image_generation
      else if reminder_cue (toLowerCase m) then reminder_setting
      else if question_cue (toLowerCase m) then question
      else if greeting_cue (toLowerCase m) then greeting
      else chat_intent) \<and>
   detectIntent ''generate image of a cat'' = image_generation \<and>
   detectIntent ''remind me to call mom at 3pm'' = reminder_setting \<and>
   detectIntent ''what is AI?'' = question \<and>
   detectIntent ''hello there'' = greeting \<and>
   detectIntent [] = chat_intent \<and>
   detectIntent ''ok, see you'' = chat_intent \<and>
   detectIntent ''Hi, what picture should I schedule?'' = image_generation \<and>
   detectIntent ''hey, when is my reminder?'' = reminder_setting \<and>
   detectIntent ''hi, why?'' = question"
  using detectIntent_chain detectIntent_image_example detectIntent_reminder_example
    detectIntent_question_example detectIntent_greeting_example detectIntent_empty_example
    detectIntent_unmatched_example detectIntent_priority_examples
  by blast

end
